theory Spec2Isabelle
  imports Complex_Main "HOL-Library.Sublist"
begin

section \<open>Shared Python primitives\<close>

text \<open>
  Exceptions are values. Only the class of an exception decides which handler of the
  source catches it; the text carried along is what \<^verbatim>\<open>str(e)\<close> would print.
\<close>

datatype exn =
    KeyError string
  | IndexError
  | ValueError string
  | AttributeError string
  | Timeout
  | RequestException string
  | OtherException string

text \<open>\<^verbatim>\<open>str(e)\<close> for the exceptions that the SMS handlers print.\<close>

fun str_exn :: "exn \<Rightarrow> string" where
  "str_exn (KeyError k) = k"
| "str_exn IndexError = ''list index out of range''"
| "str_exn (ValueError m) = m"
| "str_exn (AttributeError m) = m"
| "str_exn Timeout = ''''"
| "str_exn (RequestException m) = m"
| "str_exn (OtherException m) = m"

text \<open>Decimal rendering of a non-negative integer, as an f-string prints it.\<close>

definition digit_char :: "nat \<Rightarrow> char" where
  "digit_char d = ''0123456789'' ! (d mod 10)"

fun str_nat :: "nat \<Rightarrow> string" where
  "str_nat n = (if n < 10 then [digit_char n] else str_nat (n div 10) @ [digit_char (n mod 10)])"

declare str_nat.simps [simp del]

definition str_int :: "int \<Rightarrow> string" where
  "str_int i = (if i < 0 then CHR ''-'' # str_nat (nat (- i)) else str_nat (nat i))"

text \<open>
  \<^verbatim>\<open>s.replace(old, new)\<close>: every non-overlapping occurrence of \<open>old\<close>, scanning from
  the left. The source only ever passes a non-empty \<open>old\<close>; for an empty one the text
  is left as it is.
\<close>

function replace_str :: "string \<Rightarrow> string \<Rightarrow> string \<Rightarrow> string" where
  "replace_str old new [] = []"
| "replace_str old new (c # cs) =
     (if old \<noteq> [] \<and> prefix old (c # cs)
      then new @ replace_str old new (drop (length old) (c # cs))
      else c # replace_str old new cs)"
  by pat_completeness auto
termination
  by (relation "measure (\<lambda>(old, new, s). length s)") (auto simp: prefix_def)

text \<open>
  A \<open>char\<close> stands for a code point below 256. Among those, \<^verbatim>\<open>str.isdigit\<close>
  holds of the ten ASCII digits and of the superscripts two, three and one (code points
  178, 179 and 185); \<^verbatim>\<open>s.isdigit()\<close> asks for a non-empty text of such characters.
\<close>

definition is_digit_char :: "char \<Rightarrow> bool" where
  "is_digit_char c =
     (let n = (of_char c :: nat)
      in (48 \<le> n \<and> n \<le> 57) \<or> n = 178 \<or> n = 179 \<or> n = 185)"

definition isdigit :: "string \<Rightarrow> bool" where
  "isdigit s = (s \<noteq> [] \<and> list_all is_digit_char s)"

text \<open>\<^verbatim>\<open>sep.join(parts)\<close>.\<close>

fun join_str :: "string \<Rightarrow> string list \<Rightarrow> string" where
  "join_str sep [] = []"
| "join_str sep [p] = p"
| "join_str sep (p # q # ps) = p @ sep @ join_str sep (q # ps)"

definition get_or :: "'a option \<Rightarrow> 'a \<Rightarrow> 'a" where
  "get_or v d = (case v of None \<Rightarrow> d | Some x \<Rightarrow> x)"

section \<open>SMS service: \<^verbatim>\<open>src/api/sms_service.py\<close>\<close>

text \<open>
  A \<^verbatim>\<open>datetime\<close> is a count of microseconds (its resolution); \<^verbatim>\<open>timedelta(days=1)\<close>
  is \<open>one_day\<close>.

  A coordinate is a Python number: an \<^verbatim>\<open>int\<close>, or a \<^verbatim>\<open>float\<close>, whose finite values are
  taken as reals, with the negative zero kept apart from \<open>PyFloat 0\<close> because it prints
  differently. The rate-limit key is a text, as in the source.
\<close>

type_synonym datetime = int

definition one_day :: int where
  "one_day = 86400000000"

datatype number = PyInt int | PyFloat real | PyNegZero

definition num_val :: "number \<Rightarrow> real" where
  "num_val v = (case v of PyInt i \<Rightarrow> of_int i | PyFloat x \<Rightarrow> x | PyNegZero \<Rightarrow> 0)"

type_synonym location_key = string

record sms_service =
  api_key :: string
  sent_alerts :: "location_key \<Rightarrow> datetime list"
  max_alerts_per_day :: nat

record location_data =
  lat :: "number option"
  lng :: "number option"
  address :: "string option"

record payload =
  authorization :: string
  message :: string
  numbers :: string
  route :: string
  sender_id :: string

text \<open>
  What \<^verbatim>\<open>requests.post\<close> can do: raise, or give a response with a status code whose
  \<^verbatim>\<open>.json()\<close> raises, is not a dictionary (then \<^verbatim>\<open>.get\<close> raises AttributeError), or is
  a dictionary, of which the source reads whether \<^verbatim>\<open>'return'\<close> equals True and the
  optional \<^verbatim>\<open>'message'\<close>.
\<close>

datatype json_body =
    JsonRaises exn
  | JsonNotDict string
  | JsonDict bool "string option"

datatype post_outcome =
    PostRaises exn
  | Response nat json_body

text \<open>
  The surroundings of one call: the two readings of \<^verbatim>\<open>datetime.now()\<close> (in the
  rate-limit check, and when a send is recorded), the gateway, and how a float prints.
\<close>

record sms_env =
  now_check :: datetime
  now_sent :: datetime
  post :: "payload \<Rightarrow> post_outcome"
  str_float :: "real \<Rightarrow> string"

text \<open>
  The result of a call: the returned pair, the service object after the call, and the
  requests that were posted to the gateway during it.
\<close>

record send_result =
  ok :: bool
  reason :: string
  self_after :: sms_service
  requests :: "payload list"

definition SMSService_init :: "string \<Rightarrow> sms_service" where
  "SMSService_init key = \<lparr>api_key = key, sent_alerts = (\<lambda>k. []), max_alerts_per_day = 1\<rparr>"

definition is_enabled_sms :: "sms_service \<Rightarrow> bool" where
  "is_enabled_sms self = (api_key self \<noteq> [])"

text \<open>
  \<^verbatim>\<open>round(x, 3)\<close>. An \<^verbatim>\<open>int\<close> is returned as it is. A \<^verbatim>\<open>float\<close> goes to the nearest
  thousandth, a tie going to the even neighbour, and keeps its sign when the result is zero.
\<close>

definition round3 :: "real \<Rightarrow> real" where
  "round3 x =
     (let y = x * 1000; f = \<lfloor>y\<rfloor>; d = y - of_int f
      in of_int (if d < 1 / 2 then f else if 1 / 2 < d then f + 1
                 else if even f then f else f + 1) / 1000)"

definition py_round3 :: "number \<Rightarrow> number" where
  "py_round3 v =
     (case v of
        PyInt i \<Rightarrow> PyInt i
      | PyNegZero \<Rightarrow> PyNegZero
      | PyFloat x \<Rightarrow> if round3 x = 0 \<and> x < 0 then PyNegZero else PyFloat (round3 x))"

text \<open>
  How a number prints in an f-string. The digits of a float are left to \<open>str_float\<close>;
  the negative zero prints as \<^verbatim>\<open>-0.0\<close>.
\<close>

definition str_number :: "(real \<Rightarrow> string) \<Rightarrow> number \<Rightarrow> string" where
  "str_number sf v =
     (case v of PyInt i \<Rightarrow> str_int i | PyFloat x \<Rightarrow> sf x | PyNegZero \<Rightarrow> ''-0.0'')"

text \<open>\<^verbatim>\<open>f"{round(lat, 3)}_{round(lng, 3)}"\<close>.\<close>

definition get_location_key :: "(real \<Rightarrow> string) \<Rightarrow> number \<Rightarrow> number \<Rightarrow> location_key" where
  "get_location_key sf la lo =
     str_number sf (py_round3 la) @ ''_'' @ str_number sf (py_round3 lo)"

definition can_send_alert :: "datetime \<Rightarrow> location_key \<Rightarrow> sms_service \<Rightarrow> bool \<times> sms_service" where
  "can_send_alert now location_key self =
     (let yesterday = now - one_day;
          self1 = self\<lparr>sent_alerts := (sent_alerts self)
                    (location_key := filter (\<lambda>timestamp. timestamp > yesterday)
                                        (sent_alerts self location_key))\<rparr>
      in (length (sent_alerts self1 location_key) < max_alerts_per_day self1, self1))"

definition clean_number :: "string \<Rightarrow> string" where
  "clean_number number =
     replace_str ''-'' '''' (replace_str '' '' '''' (replace_str ''+91'' '''' number))"

definition alert_address :: "sms_env \<Rightarrow> location_data \<Rightarrow> string" where
  "alert_address env location_data =
     get_or (address location_data)
       (''Lat: '' @ get_or (map_option (str_number (str_float env)) (lat location_data)) ''N/A''
        @ '', Lng: ''
        @ get_or (map_option (str_number (str_float env)) (lng location_data)) ''N/A'')"

definition alert_message :: "sms_env \<Rightarrow> location_data \<Rightarrow> int \<Rightarrow> string" where
  "alert_message env location_data report_count =
     ''HIGH PRIORITY ALERT: '' @ str_int report_count @ '' pothole reports received at ''
     @ alert_address env location_data
     @ ''. Immediate attention required. - FixMyPothole.AI''"

definition returned :: "bool \<Rightarrow> string \<Rightarrow> sms_service \<Rightarrow> payload list \<Rightarrow> send_result" where
  "returned b m self ps = \<lparr>ok = b, reason = m, self_after = self, requests = ps\<rparr>"

text \<open>The three \<^verbatim>\<open>except\<close> clauses of \<^verbatim>\<open>send_high_priority_alert\<close>, in their order.\<close>

fun alert_handler :: "exn \<Rightarrow> string" where
  "alert_handler Timeout = ''SMS request timeout''"
| "alert_handler (RequestException m) = ''SMS request failed: '' @ m"
| "alert_handler e = ''Unexpected error: '' @ str_exn e"

definition send_high_priority_alert ::
  "sms_env \<Rightarrow> string list \<Rightarrow> location_data \<Rightarrow> int \<Rightarrow> sms_service \<Rightarrow> send_result" where
  "send_high_priority_alert env phone_numbers location_data report_count self =
     (if \<not> is_enabled_sms self then returned False ''SMS service not configured'' self []
      else if phone_numbers = [] then returned False ''No phone numbers provided'' self []
      else
        let location_key = get_location_key (str_float env)
                             (get_or (lat location_data) (PyInt 0))
                             (get_or (lng location_data) (PyInt 0));
            (allowed, self1) = can_send_alert (now_check env) location_key self
        in if \<not> allowed
           then returned False ''Daily alert limit reached for this location'' self1 []
           else
             let msg = alert_message env location_data report_count;
                 clean_numbers = filter (\<lambda>c. length c = 10 \<and> isdigit c)
                                        (map clean_number phone_numbers)
             in if clean_numbers = []
                then returned False ''No valid phone numbers found'' self1 []
                else
                  let p = \<lparr>authorization = api_key self1, message = msg,
                           numbers = join_str '','' clean_numbers,
                           route = ''q'', sender_id = ''FXPTHL''\<rparr>
                  in (case post env p of
                        PostRaises e \<Rightarrow> returned False (alert_handler e) self1 [p]
                      | Response status body \<Rightarrow>
                          if status = 200
                          then (case body of
                                  JsonRaises e \<Rightarrow> returned False (alert_handler e) self1 [p]
                                | JsonNotDict m \<Rightarrow>
                                    returned False (alert_handler (AttributeError m)) self1 [p]
                                | JsonDict ret m \<Rightarrow>
                                    if ret
                                    then returned True
                                           (''Alert sent to '' @ str_nat (length clean_numbers)
                                            @ '' recipients'')
                                           (self1\<lparr>sent_alerts := (sent_alerts self1)
                                              (location_key := sent_alerts self1 location_key
                                                               @ [now_sent env])\<rparr>)
                                           [p]
                                    else returned False
                                           (''SMS API error: '' @ get_or m ''Unknown error'')
                                           self1 [p])
                          else returned False (''SMS service error: '' @ str_nat status)
                                 self1 [p]))"

definition send_test_sms :: "sms_env \<Rightarrow> string \<Rightarrow> string \<Rightarrow> sms_service \<Rightarrow> send_result" where
  "send_test_sms env phone_number test_message self =
     (if \<not> is_enabled_sms self then returned False ''SMS service not configured'' self []
      else
        let c = clean_number phone_number
        in if length c \<noteq> 10 \<or> \<not> isdigit c
           then returned False ''Invalid phone number format'' self []
           else
             let p = \<lparr>authorization = api_key self, message = test_message, numbers = c,
                      route = ''q'', sender_id = ''FXPTHL''\<rparr>
             in (case post env p of
                   PostRaises e \<Rightarrow> returned False (''Error: '' @ str_exn e) self [p]
                 | Response status body \<Rightarrow>
                     if status = 200
                     then (case body of
                             JsonRaises e \<Rightarrow> returned False (''Error: '' @ str_exn e) self [p]
                           | JsonNotDict m \<Rightarrow> returned False (''Error: '' @ m) self [p]
                           | JsonDict ret m \<Rightarrow>
                               if ret then returned True ''Test SMS sent successfully'' self [p]
                               else returned False (get_or m ''Unknown error'') self [p])
                     else returned False (''HTTP error: '' @ str_nat status) self [p]))"


subsection \<open>Vocabulary for the statements about the SMS service\<close>

text \<open>
  The key a call works on, the request it posts, and the one gateway outcome that the
  source treats as an acknowledgment: status 200 with a body whose \<^verbatim>\<open>'return'\<close> is True.
\<close>

definition alert_key :: "sms_env \<Rightarrow> location_data \<Rightarrow> location_key" where
  "alert_key env location_data =
     get_location_key (str_float env) (get_or (lat location_data) (PyInt 0))
                                      (get_or (lng location_data) (PyInt 0))"

definition alert_payload ::
  "sms_env \<Rightarrow> string list \<Rightarrow> location_data \<Rightarrow> int \<Rightarrow> sms_service \<Rightarrow> payload" where
  "alert_payload env phone_numbers location_data report_count self =
     \<lparr>authorization = api_key self,
      message = alert_message env location_data report_count,
      numbers = join_str '',''
                  (filter (\<lambda>c. length c = 10 \<and> isdigit c) (map clean_number phone_numbers)),
      route = ''q'', sender_id = ''FXPTHL''\<rparr>"

definition acknowledged :: "post_outcome \<Rightarrow> bool" where
  "acknowledged r =
     (case r of Response status (JsonDict ret m) \<Rightarrow> status = 200 \<and> ret | _ \<Rightarrow> False)"


subsection \<open>A concrete scenario\<close>

definition gateway_accepts :: "payload \<Rightarrow> post_outcome" where
  "gateway_accepts p = Response 200 (JsonDict True None)"

definition gateway_times_out :: "payload \<Rightarrow> post_outcome" where
  "gateway_times_out p = PostRaises Timeout"

text \<open>
  How Python prints a float that is a whole number of thousandths (of moderate size): the
  integer part, a point, and the decimals without trailing zeros, but at least one.
\<close>

definition str_thousandths :: "real \<Rightarrow> string" where
  "str_thousandths x =
     (let m = \<lfloor>x * 1000\<rfloor>; a = nat \<bar>m\<bar>; frac = a mod 1000;
          ds = [digit_char (frac div 100), digit_char (frac div 10 mod 10),
                digit_char (frac mod 10)]
      in (if m < 0 then ''-'' else '''') @ str_nat (a div 1000) @ ''.''
         @ (if frac mod 10 \<noteq> 0 then ds else if frac mod 100 \<noteq> 0 then take 2 ds
            else take 1 ds))"

definition mg_road :: location_data where
  "mg_road = \<lparr>lat = Some (PyFloat 12.9716), lng = Some (PyFloat 77.5946),
              address = Some ''MG Road''\<rparr>"

text \<open>A second report of the same junction, a few metres away.\<close>

definition mg_road_nearby :: location_data where
  "mg_road_nearby = \<lparr>lat = Some (PyFloat 12.9717), lng = Some (PyFloat 77.5949),
                     address = None\<rparr>"

definition env_at :: "datetime \<Rightarrow> datetime \<Rightarrow> (payload \<Rightarrow> post_outcome) \<Rightarrow> sms_env" where
  "env_at t1 t2 g = \<lparr>now_check = t1, now_sent = t2, post = g, str_float = str_thousandths\<rparr>"

text \<open>The service after one acknowledged alert for MG Road, recorded at time 2000.\<close>

definition alerted_once :: sms_service where
  "alerted_once =
     self_after (send_high_priority_alert (env_at 1000 2000 gateway_accepts)
                   [''+91 98765-43210''] mg_road 5 (SMSService_init ''key''))"

section \<open>Predictive analytics: \<^verbatim>\<open>src/api/predictive_analytics.py\<close>\<close>

subsection \<open>Reports and the geofilter\<close>

text \<open>
  A report is a dictionary; a field that may be absent is an option. The value under
  \<^verbatim>\<open>'createdAt'\<close> is either something \<^verbatim>\<open>pd.to_datetime\<close> parses (to a time in
  microseconds since the epoch) or something it raises ValueError on.
\<close>

datatype created_raw = Parsable datetime | Unparsable

record report =
  location :: "location_data option"
  severity :: "string option"
  createdAt :: "created_raw option"
  type :: "string option"
  verified :: "string option"
  fixingStatus :: "string option"

text \<open>A row of the DataFrame that \<^verbatim>\<open>_process_historical_data\<close> builds.\<close>

record row =
  latitude :: real
  longitude :: real
  row_severity :: string
  created_at :: datetime
  row_type :: string
  row_verified :: string
  fixing_status :: string

text \<open>\<^verbatim>\<open>d[k]\<close>: KeyError when the key is absent.\<close>

definition item :: "string \<Rightarrow> 'a option \<Rightarrow> exn + 'a" where
  "item k v = (case v of None \<Rightarrow> Inl (KeyError k) | Some x \<Rightarrow> Inr x)"

definition to_datetime :: "created_raw \<Rightarrow> exn + datetime" where
  "to_datetime c = (case c of Parsable t \<Rightarrow> Inr t | Unparsable \<Rightarrow> Inl (ValueError ''Unknown datetime string format''))"

text \<open>
  The body of the loop of \<^verbatim>\<open>_process_historical_data\<close> for one report: an exception,
  no row (the report is outside the radius), or the row to append. The subscripts are
  evaluated in the order of the source.
\<close>

definition process_report :: "location_data \<Rightarrow> real \<Rightarrow> report \<Rightarrow> exn + row option" where
  "process_report loc radius_km rep =
     (case item ''location'' (location rep) of Inl e \<Rightarrow> Inl e | Inr rl \<Rightarrow>
      case item ''lat'' (lat rl) of Inl e \<Rightarrow> Inl e | Inr report_lat \<Rightarrow>
      case item ''lng'' (lng rl) of Inl e \<Rightarrow> Inl e | Inr report_lng \<Rightarrow>
      case item ''lat'' (lat loc) of Inl e \<Rightarrow> Inl e | Inr loc_lat \<Rightarrow>
      case item ''lng'' (lng loc) of Inl e \<Rightarrow> Inl e | Inr loc_lng \<Rightarrow>
      let distance = sqrt ((num_val report_lat - num_val loc_lat)\<^sup>2
                           + (num_val report_lng - num_val loc_lng)\<^sup>2) * 111
      in if distance \<le> radius_km
         then (case item ''severity'' (severity rep) of Inl e \<Rightarrow> Inl e | Inr sev \<Rightarrow>
               case item ''createdAt'' (createdAt rep) of Inl e \<Rightarrow> Inl e | Inr raw \<Rightarrow>
               case to_datetime raw of Inl e \<Rightarrow> Inl e | Inr t \<Rightarrow>
               case item ''verified'' (verified rep) of Inl e \<Rightarrow> Inl e | Inr ver \<Rightarrow>
               case item ''fixingStatus'' (fixingStatus rep) of Inl e \<Rightarrow> Inl e | Inr fs \<Rightarrow>
               Inr (Some \<lparr>latitude = num_val report_lat, longitude = num_val report_lng,
                          row_severity = sev,
                          created_at = t, row_type = get_or (type rep) ''pothole'',
                          row_verified = ver, fixing_status = fs\<rparr>))
         else Inr None)"

fun process_loop :: "location_data \<Rightarrow> real \<Rightarrow> report list \<Rightarrow> row list \<Rightarrow> exn + row list" where
  "process_loop loc radius_km [] relevant_reports = Inr relevant_reports"
| "process_loop loc radius_km (rep # reports) relevant_reports =
     (case process_report loc radius_km rep of
        Inl e \<Rightarrow> Inl e
      | Inr None \<Rightarrow> process_loop loc radius_km reports relevant_reports
      | Inr (Some r) \<Rightarrow> process_loop loc radius_km reports (relevant_reports @ [r]))"

definition process_historical_data :: "report list \<Rightarrow> location_data \<Rightarrow> real \<Rightarrow> exn + row list" where
  "process_historical_data reports loc radius_km = process_loop loc radius_km reports []"

subsection \<open>Trend analysis\<close>

text \<open>
  \<^verbatim>\<open>df.resample('W', on='created_at').size()\<close>: one bucket for every calendar week
  (Monday to Sunday) from the week of the earliest row to the week of the latest, holding
  the number of rows of that week; weeks without rows in between hold 0. The epoch was a
  Thursday, so the first Monday is day 4.
\<close>

definition week_of :: "datetime \<Rightarrow> int" where
  "week_of t = (t - 4 * one_day) div (7 * one_day)"

definition weekly_counts :: "row list \<Rightarrow> nat list" where
  "weekly_counts df =
     (case map (\<lambda>r. week_of (created_at r)) df of
        [] \<Rightarrow> []
      | w # ws \<Rightarrow> map (\<lambda>k. length (filter (\<lambda>x. x = k) (w # ws)))
                     [fold min ws w ..  fold max ws w])"

definition mean :: "real list \<Rightarrow> real" where
  "mean xs = sum_list xs / real (length xs)"

text \<open>
  \<^verbatim>\<open>np.polyfit(range(n), ys, 1)[0]\<close>: the slope of the least-squares line through
  the points \<open>(0, ys ! 0), ..., (n - 1, ys ! (n - 1))\<close>.
\<close>

definition polyfit_slope :: "real list \<Rightarrow> real" where
  "polyfit_slope ys =
     (let n = real (length ys);
          xs = map real [0 ..< length ys];
          sx = sum_list xs; sy = sum_list ys;
          sxy = sum_list (map2 (*) xs ys);
          sxx = sum_list (map (\<lambda>x. x * x) xs)
      in (n * sxy - sx * sy) / (n * sxx - sx * sx))"

record trend_result =
  trend :: string
  frequency :: real
  prediction :: string

text \<open>The severity expression of \<^verbatim>\<open>_analyze_trends\<close>, on the trend and the recent frequency.\<close>

definition predict_severity :: "string \<Rightarrow> real \<Rightarrow> string" where
  "predict_severity tr recent_frequency =
     (if recent_frequency > 5 \<or> (tr = ''increasing'' \<and> recent_frequency > 3) then ''high''
      else if recent_frequency > 2 \<or> tr = ''increasing'' then ''medium''
      else ''low'')"

text \<open>The part of \<^verbatim>\<open>_analyze_trends\<close> that works on the weekly series.\<close>

definition analyze_weekly :: "nat list \<Rightarrow> trend_result" where
  "analyze_weekly wc =
     (if length wc < 2
      then \<lparr>trend = ''stable'',
            frequency = (if wc \<noteq> [] then mean (map real wc) else 0),
            prediction = ''low''\<rparr>
      else
        let slope = polyfit_slope (map real wc);
            tr = (if slope > 0.1 then ''increasing''
                  else if slope < - 0.1 then ''decreasing'' else ''stable'');
            recent_frequency = mean (map real (drop (length wc - 4) wc))
        in \<lparr>trend = tr, frequency = recent_frequency,
            prediction = predict_severity tr recent_frequency\<rparr>)"

definition analyze_trends :: "row list \<Rightarrow> trend_result" where
  "analyze_trends df =
     (if df = [] then \<lparr>trend = ''stable'', frequency = 0, prediction = ''low''\<rparr>
      else analyze_weekly (weekly_counts df))"

subsection \<open>Hotspots\<close>

text \<open>
  \<^verbatim>\<open>DBSCAN(eps, min_samples).fit(coords).labels_\<close>, as the library computes it: the
  neighbourhood of a sample holds the indices of the samples within \<open>eps\<close> of it (itself
  included), a core sample has at least \<open>min_samples\<close> neighbours, and every core sample
  without a label starts a new cluster that a depth-first search with an explicit stack
  spreads over the neighbours of its core samples. Label \<open>-1\<close> is noise.
\<close>

type_synonym point = "real \<times> real"

definition is_neighbor :: "real \<Rightarrow> point \<Rightarrow> point \<Rightarrow> bool" where
  "is_neighbor eps p q = (sqrt ((fst p - fst q)\<^sup>2 + (snd p - snd q)\<^sup>2) \<le> eps)"

definition neighborhoods :: "real \<Rightarrow> point list \<Rightarrow> nat list list" where
  "neighborhoods eps X =
     map (\<lambda>i. filter (\<lambda>j. is_neighbor eps (X ! i) (X ! j)) [0 ..< length X]) [0 ..< length X]"

definition core_samples :: "nat \<Rightarrow> nat list list \<Rightarrow> bool list" where
  "core_samples min_samples nbs = map (\<lambda>nb. min_samples \<le> length nb) nbs"

text \<open>
  The inner \<^verbatim>\<open>while True\<close> loop of the search. The head of \<open>stack\<close> is its top, so
  pushing the unlabelled neighbours one after the other puts them on it in reverse.
\<close>

function expand :: "bool list \<Rightarrow> nat list list \<Rightarrow> nat \<Rightarrow> nat \<Rightarrow> nat list \<Rightarrow> int list \<Rightarrow> int list" where
  "expand is_core nbs label_num i stack labels =
     (let unlabelled = (i < length labels \<and> labels ! i = - 1);
          labels1 = (if unlabelled then labels[i := int label_num] else labels);
          stack1 = (if unlabelled \<and> is_core ! i
                    then rev (filter (\<lambda>v. labels1 ! v = - 1) (nbs ! i)) @ stack
                    else stack)
      in case stack1 of
           [] \<Rightarrow> labels1
         | v # rest \<Rightarrow> expand is_core nbs label_num v rest labels1)"
  by pat_completeness auto
termination
proof (relation "measures [\<lambda>(is_core, nbs, c, i, stack, labels). length (filter (\<lambda>l. l = - 1) labels),
                          \<lambda>(is_core, nbs, c, i, stack, labels). length stack]", goal_cases)
  case 1
  show ?case by simp
next
  case (2 is_core nbs label_num i stack labels unlabelled labels1 stack1 v rest)
  have fewer: "length (filter (\<lambda>l. l = - 1) (ls[j := int c])) < length (filter (\<lambda>l. l = - 1) ls)"
    if "j < length ls" "ls ! j = - 1" for ls :: "int list" and j c
    using that
  proof (induction ls arbitrary: j)
    case Nil
    then show ?case by simp
  next
    case (Cons a ls)
    show ?case
    proof (cases j)
      case 0
      with Cons.prems show ?thesis by simp
    next
      case (Suc k)
      with Cons.prems have "k < length ls" "ls ! k = - 1" by simp_all
      from Cons.IH [OF this] show ?thesis using Suc by simp
    qed
  qed
  show ?case
  proof (cases unlabelled)
    case True
    with 2 show ?thesis by (simp add: fewer)
  next
    case False
    with 2 show ?thesis by auto
  qed
qed

declare expand.simps [simp del]

text \<open>The outer \<^verbatim>\<open>for\<close> loop over the samples.\<close>

fun dbscan_inner :: "bool list \<Rightarrow> nat list list \<Rightarrow> nat list \<Rightarrow> nat \<Rightarrow> int list \<Rightarrow> int list" where
  "dbscan_inner is_core nbs [] label_num labels = labels"
| "dbscan_inner is_core nbs (i # rest) label_num labels =
     (if labels ! i \<noteq> - 1 \<or> \<not> is_core ! i
      then dbscan_inner is_core nbs rest label_num labels
      else dbscan_inner is_core nbs rest (label_num + 1)
             (expand is_core nbs label_num i [] labels))"

definition dbscan_labels :: "real \<Rightarrow> nat \<Rightarrow> point list \<Rightarrow> int list" where
  "dbscan_labels eps min_samples X =
     (let nbs = neighborhoods eps X;
          is_core = core_samples min_samples nbs
      in dbscan_inner is_core nbs [0 ..< length X] 0 (replicate (length X) (- 1)))"

text \<open>
  \<^verbatim>\<open>DBSCAN(eps=eps, min_samples=min_samples).fit(X)\<close>: the library rejects an \<open>eps\<close>
  that is not positive before it clusters anything.
\<close>

definition dbscan_fit :: "real \<Rightarrow> nat \<Rightarrow> point list \<Rightarrow> exn + int list" where
  "dbscan_fit eps min_samples X =
     (if eps \<le> 0 then Inl (ValueError ''eps must be positive'')
      else Inr (dbscan_labels eps min_samples X))"

record hotspot =
  hotspot_lat :: real
  hotspot_lng :: real
  intensity :: real
  count :: nat

definition cluster_points :: "point list \<Rightarrow> int list \<Rightarrow> int \<Rightarrow> point list" where
  "cluster_points coords labels cluster_id =
     map fst (filter (\<lambda>pl. snd pl = cluster_id) (zip coords labels))"

text \<open>
  \<^verbatim>\<open>_identify_hotspots\<close>. The source walks \<^verbatim>\<open>set(clustering.labels_)\<close>, whose order
  Python does not fix; the model takes the labels in ascending order.
\<close>

definition identify_hotspots :: "row list \<Rightarrow> real \<Rightarrow> exn + hotspot list" where
  "identify_hotspots df eps_km =
     (if df = [] then Inr []
      else
        let eps_degrees = eps_km / 111;
            coords = map (\<lambda>r. (latitude r, longitude r)) df
        in case dbscan_fit eps_degrees 3 coords of
             Inl e \<Rightarrow> Inl e
           | Inr labels \<Rightarrow>
               Inr (map (\<lambda>cluster_id.
                          let pts = cluster_points coords labels cluster_id;
                              cluster_size = length pts
                          in \<lparr>hotspot_lat = mean (map fst pts), hotspot_lng = mean (map snd pts),
                              intensity = min 1 (real cluster_size / 10),
                              count = cluster_size\<rparr>)
                        (filter (\<lambda>cluster_id. cluster_id \<noteq> - 1) (sort (remdups labels)))))"

section \<open>The SMS service: rate limiting and the alert ledger\<close>

lemma can_send_alert_other:
  "sent_alerts (snd (can_send_alert now k s)) =
     (sent_alerts s)(k := filter (\<lambda>t. t > now - one_day) (sent_alerts s k))"
  by (simp add: can_send_alert_def Let_def)

lemma can_send_alert_fst:
  "fst (can_send_alert now k s) =
     (length (filter (\<lambda>t. t > now - one_day) (sent_alerts s k)) < max_alerts_per_day s)"
  by (simp add: can_send_alert_def Let_def)

lemma can_send_alert_keeps:
  "api_key (snd (can_send_alert now k s)) = api_key s"
  "max_alerts_per_day (snd (can_send_alert now k s)) = max_alerts_per_day s"
  by (simp_all add: can_send_alert_def Let_def)

lemma send_alert_ok:
  "ok (send_high_priority_alert env ns loc n s) =
    (is_enabled_sms s \<and> ns \<noteq> []
     \<and> fst (can_send_alert (now_check env) (alert_key env loc) s)
     \<and> filter (\<lambda>c. length c = 10 \<and> isdigit c) (map clean_number ns) \<noteq> []
     \<and> acknowledged (post env (alert_payload env ns loc n s)))"
  by (simp add: send_high_priority_alert_def returned_def Let_def alert_key_def acknowledged_def
       alert_payload_def can_send_alert_keeps split_beta
       split: post_outcome.splits json_body.splits)

lemma send_alert_ledger:
  "sent_alerts (self_after (send_high_priority_alert env ns loc n s)) =
    (if \<not> is_enabled_sms s \<or> ns = [] then sent_alerts s
     else if ok (send_high_priority_alert env ns loc n s)
     then (sent_alerts s)(alert_key env loc :=
            filter (\<lambda>t. t > now_check env - one_day) (sent_alerts s (alert_key env loc))
            @ [now_sent env])
     else (sent_alerts s)(alert_key env loc :=
            filter (\<lambda>t. t > now_check env - one_day) (sent_alerts s (alert_key env loc))))"
  by (simp add: send_high_priority_alert_def returned_def Let_def alert_key_def
       can_send_alert_other split_beta
       split: post_outcome.splits json_body.splits)

lemma send_alert_keeps:
  "api_key (self_after (send_high_priority_alert env ns loc n s)) = api_key s"
  "max_alerts_per_day (self_after (send_high_priority_alert env ns loc n s))
     = max_alerts_per_day s"
  by (simp_all add: send_high_priority_alert_def returned_def Let_def
       can_send_alert_keeps split_beta
       split: post_outcome.splits json_body.splits)




subsection \<open>Quantization of the key\<close>




subsection \<open>The scenario\<close>

lemma str_nat_small: "n < 10 \<Longrightarrow> str_nat n = [digit_char n]"
  by (simp add: str_nat.simps)

lemma str_nat_two: "10 \<le> n \<Longrightarrow> n < 100 \<Longrightarrow> str_nat n = [digit_char (n div 10), digit_char (n mod 10)]"
  by (subst str_nat.simps) (simp add: str_nat_small)

lemma scenario_rounding:
  "py_round3 (PyFloat 12.9716) = PyFloat 12.972"
  "py_round3 (PyFloat 77.5946) = PyFloat 77.595"
  "py_round3 (PyFloat 12.9717) = PyFloat 12.972"
  "py_round3 (PyFloat 77.5949) = PyFloat 77.595"
  by (simp_all add: py_round3_def round3_def Let_def)

lemma scenario_printing:
  "str_number str_thousandths (PyFloat 12.972) = ''12.972''"
  "str_number str_thousandths (PyFloat 77.595) = ''77.595''"
  by (simp_all add: str_number_def str_thousandths_def Let_def str_nat_two digit_char_def)

lemma mg_road_key: "alert_key (env_at t1 t2 g) mg_road = ''12.972_77.595''"
proof -
  have "alert_key (env_at t1 t2 g) mg_road
          = str_number str_thousandths (py_round3 (PyFloat 12.9716)) @ ''_''
            @ str_number str_thousandths (py_round3 (PyFloat 77.5946))"
    by (simp add: alert_key_def env_at_def mg_road_def get_location_key_def get_or_def)
  also have "\<dots> = ''12.972'' @ ''_'' @ ''77.595''"
    by (simp only: scenario_rounding scenario_printing)
  finally show ?thesis by simp
qed

lemma mg_road_nearby_key: "alert_key (env_at t1 t2 g) mg_road_nearby = ''12.972_77.595''"
proof -
  have "alert_key (env_at t1 t2 g) mg_road_nearby
          = str_number str_thousandths (py_round3 (PyFloat 12.9717)) @ ''_''
            @ str_number str_thousandths (py_round3 (PyFloat 77.5949))"
    by (simp add: alert_key_def env_at_def mg_road_nearby_def get_location_key_def get_or_def)
  also have "\<dots> = ''12.972'' @ ''_'' @ ''77.595''"
    by (simp only: scenario_rounding scenario_printing)
  finally show ?thesis by simp
qed

lemma env_at_sel:
  "now_check (env_at t1 t2 g) = t1" "now_sent (env_at t1 t2 g) = t2"
  "post (env_at t1 t2 g) = g" "str_float (env_at t1 t2 g) = str_thousandths"
  by (simp_all add: env_at_def)

lemma clean_number_example: "clean_number ''+91 98765-43210'' = ''9876543210''"
  by (simp add: clean_number_def)

lemma isdigit_example: "isdigit ''9876543210''"
  by (simp add: isdigit_def is_digit_char_def)

lemma one_valid_number:
  "filter (\<lambda>c. length c = 10 \<and> isdigit c) (map clean_number [''+91 98765-43210''])
     = [''9876543210'']"
  by (simp add: clean_number_def isdigit_def is_digit_char_def)

lemma clean_number_plain: "clean_number ''9876543210'' = ''9876543210''"
  by (simp add: clean_number_def)

lemma plain_valid_number:
  "filter (\<lambda>c. length c = 10 \<and> isdigit c) (map clean_number [''9876543210''])
     = [''9876543210'']"
  by (simp add: clean_number_def isdigit_def is_digit_char_def)

lemma send_alert_post_raises:
  assumes "is_enabled_sms s" "ns \<noteq> []"
      and "fst (can_send_alert (now_check env) (alert_key env loc) s)"
      and "filter (\<lambda>c. length c = 10 \<and> isdigit c) (map clean_number ns) \<noteq> []"
      and "post env (alert_payload env ns loc n s) = PostRaises e"
  shows "reason (send_high_priority_alert env ns loc n s) = alert_handler e"
  using assms
  by (simp add: send_high_priority_alert_def returned_def Let_def split_beta alert_key_def
        alert_payload_def can_send_alert_keeps)

lemma first_alert_ok:
  "ok (send_high_priority_alert (env_at 1000 2000 gateway_accepts)
         [''+91 98765-43210''] mg_road 5 (SMSService_init ''key''))"
  by (simp add: send_alert_ok is_enabled_sms_def SMSService_init_def can_send_alert_fst
        clean_number_example isdigit_example acknowledged_def gateway_accepts_def env_at_sel)

lemma alerted_once_ledger:
  "sent_alerts alerted_once = (\<lambda>k. [])(''12.972_77.595'' := [2000])"
  "api_key alerted_once = ''key''"
  "max_alerts_per_day alerted_once = 1"
proof -
  have "sent_alerts alerted_once
          = (\<lambda>k. [])(alert_key (env_at 1000 2000 gateway_accepts) mg_road := [2000])"
    unfolding alerted_once_def
    using first_alert_ok
    by (simp add: send_alert_ledger is_enabled_sms_def SMSService_init_def env_at_sel)
  then show "sent_alerts alerted_once = (\<lambda>k. [])(''12.972_77.595'' := [2000])"
    by (simp only: mg_road_key)
  show "api_key alerted_once = ''key''" "max_alerts_per_day alerted_once = 1"
    unfolding alerted_once_def by (simp_all add: send_alert_keeps SMSService_init_def)
qed

lemma alerted_once_enabled: "is_enabled_sms alerted_once"
  by (simp add: is_enabled_sms_def alerted_once_ledger)

subsection \<open>Claim C5: one alert per key and day\<close>




subsection \<open>Claim C6: the ledger grows only on acknowledgment\<close>

text \<open>
  Claim C6, as stated, fails where it says that a gateway failure leaves the ledger entry
  of the key unchanged: the rate-limit check has already pruned the entry. Here the entry
  holds a send recorded at time 2000; two days later the gateway times out, the call
  returns \<open>(False, ''SMS request timeout'')\<close>, and the entry is empty.
\<close>

theorem failed_send_prunes_ledger_counterexample:
  "\<not> ok (send_high_priority_alert (env_at 172800002000 172800003000 gateway_times_out)
            [''9876543210''] mg_road 6 alerted_once)
   \<and> reason (send_high_priority_alert (env_at 172800002000 172800003000 gateway_times_out)
            [''9876543210''] mg_road 6 alerted_once) = ''SMS request timeout''
   \<and> sent_alerts alerted_once
        (alert_key (env_at 172800002000 172800003000 gateway_times_out) mg_road) = [2000]
   \<and> sent_alerts (self_after (send_high_priority_alert
          (env_at 172800002000 172800003000 gateway_times_out)
          [''9876543210''] mg_road 6 alerted_once))
        (alert_key (env_at 172800002000 172800003000 gateway_times_out) mg_road) = []"
proof -
  let ?env = "env_at 172800002000 172800003000 gateway_times_out"
  have can: "fst (can_send_alert (now_check ?env) (alert_key ?env mg_road) alerted_once)"
    by (simp add: can_send_alert_fst alerted_once_ledger one_day_def env_at_sel mg_road_key)
  have po: "post ?env (alert_payload ?env [''9876543210''] mg_road 6 alerted_once)
              = PostRaises Timeout"
    by (simp add: env_at_sel gateway_times_out_def)
  have nz: "filter (\<lambda>c. length c = 10 \<and> isdigit c) (map clean_number [''9876543210'']) \<noteq> []"
    by (simp add: clean_number_plain isdigit_example)
  have "reason (send_high_priority_alert ?env [''9876543210''] mg_road 6 alerted_once)
          = ''SMS request timeout''"
    using send_alert_post_raises [OF alerted_once_enabled _ can nz po] by simp
  moreover have nok: "\<not> ok (send_high_priority_alert ?env [''9876543210''] mg_road 6 alerted_once)"
    by (simp add: send_alert_ok po acknowledged_def)
  moreover have "sent_alerts alerted_once (alert_key ?env mg_road) = [2000]"
    by (simp add: alerted_once_ledger mg_road_key)
  moreover have "sent_alerts (self_after (send_high_priority_alert ?env
          [''9876543210''] mg_road 6 alerted_once)) (alert_key ?env mg_road) = []"
    using nok alerted_once_enabled
    by (simp add: send_alert_ledger alerted_once_ledger mg_road_key env_at_sel one_day_def)
  ultimately show ?thesis by blast
qed

text \<open>
  Claim C6, amended. A call succeeds exactly when the service is enabled, numbers are
  given, the rate-limit check passes, a valid number remains and the gateway acknowledges
  the posted request (status 200 and \<^verbatim>\<open>'return'\<close> True). Whenever the check runs, the
  entry of the key becomes its pruned form (the timestamps of the trailing 24 hours), and
  the time of sending is appended to it exactly when the call succeeds; every other
  outcome of the gateway gives a \<open>False\<close> result with nothing appended. The entries
  of all other keys stay as they were.
\<close>

theorem alert_recorded_only_on_acknowledgment:
  "ok (send_high_priority_alert env ns loc n s) =
     (is_enabled_sms s \<and> ns \<noteq> []
      \<and> fst (can_send_alert (now_check env) (alert_key env loc) s)
      \<and> filter (\<lambda>c. length c = 10 \<and> isdigit c) (map clean_number ns) \<noteq> []
      \<and> acknowledged (post env (alert_payload env ns loc n s)))
   \<and> sent_alerts (self_after (send_high_priority_alert env ns loc n s)) =
     (if is_enabled_sms s \<and> ns \<noteq> []
      then (sent_alerts s)(alert_key env loc :=
             filter (\<lambda>t. t > now_check env - one_day) (sent_alerts s (alert_key env loc))
             @ (if ok (send_high_priority_alert env ns loc n s) then [now_sent env] else []))
      else sent_alerts s)
   \<and> acknowledged out = (\<exists>m. out = Response 200 (JsonDict True m))"
proof -
  have "acknowledged out = (\<exists>m. out = Response 200 (JsonDict True m))"
    by (auto simp: acknowledged_def split: post_outcome.splits json_body.splits)
  then show ?thesis
    by (simp add: send_alert_ok send_alert_ledger)
qed

theorem alert_recorded_only_on_acknowledgment_witness:
  "\<not> acknowledged (post (env_at 172800002000 172800003000 gateway_times_out)
        (alert_payload (env_at 172800002000 172800003000 gateway_times_out)
           [''9876543210''] mg_road 6 alerted_once))
   \<and> \<not> ok (send_high_priority_alert (env_at 172800002000 172800003000 gateway_times_out)
            [''9876543210''] mg_road 6 alerted_once)
   \<and> sent_alerts (self_after (send_high_priority_alert
          (env_at 172800002000 172800003000 gateway_times_out)
          [''9876543210''] mg_road 6 alerted_once))
      = (sent_alerts alerted_once)(''12.972_77.595'' := [])
   \<and> ok (send_high_priority_alert (env_at 172800002000 172800003000 gateway_accepts)
            [''9876543210''] mg_road 6 alerted_once)
   \<and> sent_alerts (self_after (send_high_priority_alert
          (env_at 172800002000 172800003000 gateway_accepts)
          [''9876543210''] mg_road 6 alerted_once))
      = (sent_alerts alerted_once)(''12.972_77.595'' := [172800003000])"
proof -
  have can: "fst (can_send_alert 172800002000 ''12.972_77.595'' alerted_once)"
    by (simp add: can_send_alert_fst alerted_once_ledger one_day_def)
  have pr: "filter (\<lambda>t. t > 172800002000 - one_day)
              (sent_alerts alerted_once ''12.972_77.595'') = []"
    by (simp add: alerted_once_ledger one_day_def)
  have nack: "\<not> acknowledged (gateway_times_out p)" for p
    by (simp add: acknowledged_def gateway_times_out_def)
  have ack: "acknowledged (gateway_accepts p)" for p
    by (simp add: acknowledged_def gateway_accepts_def)
  show ?thesis
    using alert_recorded_only_on_acknowledgment
            [of "env_at 172800002000 172800003000 gateway_times_out" "[''9876543210'']"
                mg_road 6 alerted_once "PostRaises Timeout"]
          alert_recorded_only_on_acknowledgment
            [of "env_at 172800002000 172800003000 gateway_accepts" "[''9876543210'']"
                mg_road 6 alerted_once "Response 200 (JsonDict True None)"]
          alerted_once_enabled can plain_valid_number pr nack ack
    by (simp add: env_at_sel mg_road_key)
qed

subsection \<open>Claim C10: test messages and the ledger\<close>

text \<open>
  Claim C10. A test send leaves the service object, and so every ledger entry, as it was,
  and what it returns and posts does not depend on the ledger: it is never refused by the
  daily limit and never counts against it.
\<close>

theorem send_test_sms_ledger_frame:
  "self_after (send_test_sms env pn tm s) = s
   \<and> ok (send_test_sms env pn tm (s\<lparr>sent_alerts := L\<rparr>)) = ok (send_test_sms env pn tm s)
   \<and> reason (send_test_sms env pn tm (s\<lparr>sent_alerts := L\<rparr>)) = reason (send_test_sms env pn tm s)
   \<and> requests (send_test_sms env pn tm (s\<lparr>sent_alerts := L\<rparr>))
       = requests (send_test_sms env pn tm s)"
  by (simp add: send_test_sms_def returned_def Let_def is_enabled_sms_def
        split: post_outcome.splits json_body.splits)

theorem send_test_sms_ledger_frame_witness:
  "self_after (send_test_sms (env_at 3000 4000 gateway_accepts) ''+91 98765-43210''
                 ''Test message from FixMyPothole.AI'' alerted_once) = alerted_once
   \<and> ok (send_test_sms (env_at 3000 4000 gateway_accepts) ''+91 98765-43210''
                 ''Test message from FixMyPothole.AI'' alerted_once)
   \<and> reason (send_test_sms (env_at 3000 4000 gateway_accepts) ''+91 98765-43210''
                 ''Test message from FixMyPothole.AI'' alerted_once) = ''Test SMS sent successfully''
   \<and> \<not> ok (send_high_priority_alert (env_at 3000 4000 gateway_accepts)
              [''+91 98765-43210''] mg_road 6 alerted_once)"
proof -
  have a: "ok (send_test_sms (env_at 3000 4000 gateway_accepts) ''+91 98765-43210''
                 ''Test message from FixMyPothole.AI'' alerted_once)
     \<and> reason (send_test_sms (env_at 3000 4000 gateway_accepts) ''+91 98765-43210''
                 ''Test message from FixMyPothole.AI'' alerted_once) = ''Test SMS sent successfully''"
    by (simp add: send_test_sms_def returned_def Let_def is_enabled_sms_def alerted_once_ledger
          clean_number_example isdigit_example env_at_def gateway_accepts_def)
  have b: "\<not> ok (send_high_priority_alert (env_at 3000 4000 gateway_accepts)
              [''+91 98765-43210''] mg_road 6 alerted_once)"
    by (simp add: send_alert_ok can_send_alert_fst alerted_once_ledger mg_road_key one_day_def
          env_at_sel)
  show ?thesis
    using send_test_sms_ledger_frame [of "env_at 3000 4000 gateway_accepts" "''+91 98765-43210''"
            "''Test message from FixMyPothole.AI''" alerted_once "sent_alerts alerted_once"] a b
    by simp
qed

end
